theory Spec2Isabelle
  imports Complex_Main "HOL-Library.Sublist"
begin

section \<open>Data model (types.ts)\<close>

text \<open>
  Strings of the program are modelled as \<^typ>\<open>string\<close>: an ASCII character is one
  \<^typ>\<open>char\<close>, any other code unit the bytes of its UTF-8 form. Millisecond
  timestamps (\<^verbatim>\<open>Date.now()\<close>) are integers; times of the audio clock are reals
  (the program computes them in double precision; the model is the exact
  arithmetic that the doubles approximate).
\<close>

datatype Role = User | Model

record Message =
  role :: Role
  content :: string
  senderName :: "string option"
  timestamp :: int

datatype AppState = CHATTING | ASSESSING | REPORT

text \<open>A value produced by \<^verbatim>\<open>JSON.parse\<close>. A number keeps its numeral as written.\<close>

datatype json =
    JNull
  | JBool bool
  | JNumber string
  | JString string
  | JArray "json list"
  | JObject "(string \<times> json) list"

section \<open>Coordinator state (App.tsx)\<close>

text \<open>
  A scheduled \<^verbatim>\<open>AudioBufferSourceNode\<close>: the time passed to \<^verbatim>\<open>source.start\<close> and the
  duration of its buffer.
\<close>

record AudioSource =
  startAt :: real
  duration :: real

record TranscriptionBuffer =
  user :: string
  model :: string

text \<open>
  The React state variables and refs of \<^verbatim>\<open>App\<close>. A ref holding an object the model
  does not look into is a flag (present or \<^verbatim>\<open>null\<close>). The tracked \<^verbatim>\<open>Set\<close> of sources
  is a list in insertion order. Three fields record effects on the outside
  world: \<open>stopped\<close> (calls of \<^verbatim>\<open>source.stop()\<close>), \<open>alerts\<close> (calls of \<^verbatim>\<open>alert\<close>) and
  \<open>readouts\<close> (spoken report read-outs that were started).
\<close>

record state =
  messages :: "Message list"
  input :: string
  appState :: AppState
  isLoading :: bool
  report :: "json option"
  isRecording :: bool
  isLive :: bool
  sessionStartTime :: "int option"
  currentTime :: int
  isSessionActive :: bool
  chatRef :: bool
  liveSessionRef :: bool
  audioContextInRef :: bool
  audioContextOutRef :: bool
  nextStartTimeRef :: real
  audioSourcesRef :: "AudioSource list"
  transcriptionBufferRef :: TranscriptionBuffer
  stopped :: "AudioSource list"
  alerts :: "string list"
  readouts :: "string list"

section \<open>Timer gate\<close>

text \<open>
  \<^verbatim>\<open>getElapsedTime = () => (!sessionStartTime ? 0 : Math.max(0, currentTime - sessionStartTime))\<close>.
  \<^verbatim>\<open>!sessionStartTime\<close> holds for \<^verbatim>\<open>null\<close> and for the number 0.
\<close>

definition getElapsedTime :: "state \<Rightarrow> int" where
  "getElapsedTime s =
     (case sessionStartTime s of
        None \<Rightarrow> 0
      | Some t \<Rightarrow> if t = 0 then 0 else max 0 (currentTime s - t))"

definition canRequestAssessment :: "state \<Rightarrow> bool" where
  "canRequestAssessment s = (getElapsedTime s \<ge> 180000)"

section \<open>Assessment trigger phrases\<close>

text \<open>
  \<^verbatim>\<open>String.prototype.toLowerCase\<close> on the ASCII letters; other bytes are left as they
  are.
\<close>

definition toLowerCaseChar :: "char \<Rightarrow> char" where
  "toLowerCaseChar c =
     (if 65 \<le> (of_char c :: nat) \<and> (of_char c :: nat) \<le> 90
      then char_of ((of_char c :: nat) + 32) else c)"

definition toLowerCase :: "string \<Rightarrow> string" where
  "toLowerCase t = map toLowerCaseChar t"

text \<open>\<^verbatim>\<open>s.startsWith(k)\<close> and \<^verbatim>\<open>s.includes(k)\<close>: \<open>k\<close> occurs at some position of \<open>s\<close>.\<close>

fun startsWith :: "string \<Rightarrow> string \<Rightarrow> bool" where
  "startsWith s [] = True"
| "startsWith [] (k # ks) = False"
| "startsWith (c # cs) (k # ks) = (c = k \<and> startsWith cs ks)"

fun includes_str :: "string \<Rightarrow> string \<Rightarrow> bool" where
  "includes_str [] k = startsWith [] k"
| "includes_str (c # cs) k = (startsWith (c # cs) k \<or> includes_str cs k)"

definition triggerKeywords :: "string list" where
  "triggerKeywords = [''assessment'', ''report'', ''i need my language assessment now'']"

text \<open>\<^verbatim>\<open>triggerKeywords.some(k => text.toLowerCase().includes(k))\<close>\<close>

definition matchesTrigger :: "string \<Rightarrow> bool" where
  "matchesTrigger text = list_ex (\<lambda>k. includes_str (toLowerCase text) k) triggerKeywords"

text \<open>
  The test of \<^verbatim>\<open>handleSendMessage\<close>:
  \<^verbatim>\<open>isTrigger = !isInitial && triggerKeywords.some(...)\<close>.
\<close>

definition isTrigger :: "string \<Rightarrow> bool \<Rightarrow> bool" where
  "isTrigger text isInitial = (\<not> isInitial \<and> matchesTrigger text)"

text \<open>
  The phrase test of the \<^verbatim>\<open>turnComplete\<close> branch:
  \<^verbatim>\<open>userText.toLowerCase() && triggerKeywords.some(...)\<close>; a string is truthy when it
  is not empty.
\<close>

definition liveTrigger :: "string \<Rightarrow> bool" where
  "liveTrigger userText = (toLowerCase userText \<noteq> [] \<and> matchesTrigger userText)"

section \<open>JSON.parse\<close>

text \<open>
  \<^verbatim>\<open>JSON.parse\<close> belongs to the platform, not to the repository. It is modelled
  after the JSON grammar (ECMA-404): a lexer, then a stack automaton over the
  tokens. \<open>None\<close> is the \<^verbatim>\<open>SyntaxError\<close>. A code unit written as \<^verbatim>\<open>\uXXXX\<close> is
  stored as the one to three bytes of its UTF-8 form.
\<close>

datatype token =
    TLBrace | TRBrace | TLBracket | TRBracket | TColon | TComma
  | TString string | TNumber string | TTrue | TFalse | TNull

definition isWhiteSpace :: "char \<Rightarrow> bool" where
  "isWhiteSpace c = (c = CHR 0x20 \<or> c = CHR 0x09 \<or> c = CHR 0x0A \<or> c = CHR 0x0D)"

definition isDigit :: "char \<Rightarrow> bool" where
  "isDigit c = (48 \<le> (of_char c :: nat) \<and> (of_char c :: nat) \<le> 57)"

definition hexValue :: "char \<Rightarrow> nat option" where
  "hexValue c =
     (let n = (of_char c :: nat) in
      if 48 \<le> n \<and> n \<le> 57 then Some (n - 48)
      else if 65 \<le> n \<and> n \<le> 70 then Some (n - 55)
      else if 97 \<le> n \<and> n \<le> 102 then Some (n - 87)
      else None)"

definition hex4 :: "char \<Rightarrow> char \<Rightarrow> char \<Rightarrow> char \<Rightarrow> nat option" where
  "hex4 a b c d =
     (case (hexValue a, hexValue b, hexValue c, hexValue d) of
        (Some w, Some x, Some y, Some z) \<Rightarrow> Some (((w * 16 + x) * 16 + y) * 16 + z)
      | _ \<Rightarrow> None)"

definition encodeUnit :: "nat \<Rightarrow> string" where
  "encodeUnit n =
     (if n < 128 then [char_of n]
      else if n < 2048 then [char_of (192 + n div 64), char_of (128 + n mod 64)]
      else [char_of (224 + n div 4096), char_of (128 + (n div 64) mod 64),
            char_of (128 + n mod 64)])"

definition escapeChar :: "char \<Rightarrow> char option" where
  "escapeChar e =
     (if e = CHR 0x22 \<or> e = CHR 0x5C \<or> e = CHR ''/'' then Some e
      else if e = CHR ''b'' then Some (CHR 0x08)
      else if e = CHR ''f'' then Some (CHR 0x0C)
      else if e = CHR ''n'' then Some (CHR 0x0A)
      else if e = CHR ''r'' then Some (CHR 0x0D)
      else if e = CHR ''t'' then Some (CHR 0x09)
      else None)"

text \<open>The position of the quote that closes a string whose body starts at \<open>cs\<close>.\<close>

fun stringEnd :: "string \<Rightarrow> nat option" where
  "stringEnd [] = None"
| "stringEnd (c # cs) =
     (if c = CHR 0x22 then Some 0
      else if c = CHR 0x5C then
        (case cs of
           [] \<Rightarrow> None
         | e # cs' \<Rightarrow> map_option (\<lambda>n. n + 2) (stringEnd cs'))
      else map_option Suc (stringEnd cs))"

text \<open>The characters denoted by a string body; control characters must be escaped.\<close>

fun unescape :: "string \<Rightarrow> string option" where
  "unescape [] = Some []"
| "unescape (c # cs) =
     (if c = CHR 0x5C then
        (case cs of
           [] \<Rightarrow> None
         | e # cs' \<Rightarrow>
             if e = CHR ''u'' then
               (case cs' of
                  h1 # h2 # h3 # h4 # cs'' \<Rightarrow>
                    (case hex4 h1 h2 h3 h4 of
                       None \<Rightarrow> None
                     | Some n \<Rightarrow> map_option (\<lambda>r. encodeUnit n @ r) (unescape cs''))
                | _ \<Rightarrow> None)
             else
               (case escapeChar e of
                  None \<Rightarrow> None
                | Some x \<Rightarrow> map_option (\<lambda>r. x # r) (unescape cs')))
      else if (of_char c :: nat) < 32 then None
      else map_option (\<lambda>r. c # r) (unescape cs))"

text \<open>Numbers: \<^verbatim>\<open>-? (0 | [1-9][0-9]*) (. [0-9]+)? ([eE] [+-]? [0-9]+)?\<close>\<close>

definition isNumberChar :: "char \<Rightarrow> bool" where
  "isNumberChar c =
     (isDigit c \<or> c = CHR ''-'' \<or> c = CHR ''+'' \<or> c = CHR ''.'' \<or> c = CHR ''e'' \<or> c = CHR ''E'')"

definition validExponent :: "string \<Rightarrow> bool" where
  "validExponent r =
     (case r of
        [] \<Rightarrow> True
      | c # r' \<Rightarrow>
          (c = CHR ''e'' \<or> c = CHR ''E'') \<and>
          (let ds = (case r' of
                       [] \<Rightarrow> []
                     | g # t \<Rightarrow> if g = CHR ''+'' \<or> g = CHR ''-'' then t else r')
           in ds \<noteq> [] \<and> list_all isDigit ds))"

definition validFraction :: "string \<Rightarrow> bool" where
  "validFraction r =
     (case r of
        [] \<Rightarrow> True
      | c # r' \<Rightarrow>
          if c = CHR ''.'' then takeWhile isDigit r' \<noteq> [] \<and> validExponent (dropWhile isDigit r')
          else validExponent r)"

definition validNumber :: "string \<Rightarrow> bool" where
  "validNumber cs =
     (case (case cs of [] \<Rightarrow> [] | g # t \<Rightarrow> if g = CHR ''-'' then t else cs) of
        [] \<Rightarrow> False
      | d # r \<Rightarrow>
          if d = CHR ''0'' then validFraction r
          else isDigit d \<and> validFraction (dropWhile isDigit r))"

definition consToken :: "token \<Rightarrow> token list option \<Rightarrow> token list option" where
  "consToken t r = map_option (\<lambda>ts. t # ts) r"

fun lex :: "string \<Rightarrow> token list option" where
  "lex [] = Some []"
| "lex (c # cs) =
     (if isWhiteSpace c then lex cs
      else if c = CHR ''{'' then consToken TLBrace (lex cs)
      else if c = CHR ''}'' then consToken TRBrace (lex cs)
      else if c = CHR ''['' then consToken TLBracket (lex cs)
      else if c = CHR '']'' then consToken TRBracket (lex cs)
      else if c = CHR '':'' then consToken TColon (lex cs)
      else if c = CHR '','' then consToken TComma (lex cs)
      else if c = CHR 0x22 then
        (case stringEnd cs of
           None \<Rightarrow> None
         | Some n \<Rightarrow>
             (case unescape (take n cs) of
                None \<Rightarrow> None
              | Some str \<Rightarrow> consToken (TString str) (lex (drop (Suc n) cs))))
      else if isNumberChar c then
        (let num = c # takeWhile isNumberChar cs in
         if validNumber num then
           consToken (TNumber num) (lex (drop (length (takeWhile isNumberChar cs)) cs))
         else None)
      else if startsWith (c # cs) ''true'' then consToken TTrue (lex (drop 3 cs))
      else if startsWith (c # cs) ''false'' then consToken TFalse (lex (drop 4 cs))
      else if startsWith (c # cs) ''null'' then consToken TNull (lex (drop 3 cs))
      else None)"

text \<open>
  The automaton: a stack of open containers (members collected in reverse) and
  what may come next.
\<close>

datatype frame =
    FArray "json list"
  | FObject "(string \<times> json) list"
  | FMember "(string \<times> json) list" string

datatype expect = Value | ValueOrClose | KeyOrClose | Key | Colon | CommaOrClose | Finished json

fun deliver :: "json \<Rightarrow> frame list \<Rightarrow> (expect \<times> frame list) option" where
  "deliver v [] = Some (Finished v, [])"
| "deliver v (FArray acc # st) = Some (CommaOrClose, FArray (v # acc) # st)"
| "deliver v (FMember mem k # st) = Some (CommaOrClose, FObject ((k, v) # mem) # st)"
| "deliver v (FObject mem # st) = None"

fun scalar :: "token \<Rightarrow> json option" where
  "scalar (TString str) = Some (JString str)"
| "scalar (TNumber n) = Some (JNumber n)"
| "scalar TTrue = Some (JBool True)"
| "scalar TFalse = Some (JBool False)"
| "scalar TNull = Some JNull"
| "scalar _ = None"

definition startValue :: "token \<Rightarrow> frame list \<Rightarrow> (expect \<times> frame list) option" where
  "startValue t st =
     (if t = TLBracket then Some (ValueOrClose, FArray [] # st)
      else if t = TLBrace then Some (KeyOrClose, FObject [] # st)
      else (case scalar t of None \<Rightarrow> None | Some v \<Rightarrow> deliver v st))"

definition closeContainer :: "token \<Rightarrow> frame list \<Rightarrow> (expect \<times> frame list) option" where
  "closeContainer t st =
     (case st of
        FArray acc # st' \<Rightarrow> if t = TRBracket then deliver (JArray (rev acc)) st' else None
      | FObject mem # st' \<Rightarrow> if t = TRBrace then deliver (JObject (rev mem)) st' else None
      | _ \<Rightarrow> None)"

definition startMember :: "token \<Rightarrow> frame list \<Rightarrow> (expect \<times> frame list) option" where
  "startMember t st =
     (case (t, st) of
        (TString k, FObject mem # st') \<Rightarrow> Some (Colon, FMember mem k # st')
      | _ \<Rightarrow> None)"

fun parseStep :: "expect \<times> frame list \<Rightarrow> token \<Rightarrow> (expect \<times> frame list) option" where
  "parseStep (Value, st) t = startValue t st"
| "parseStep (ValueOrClose, st) t =
     (if t = TRBracket then closeContainer t st else startValue t st)"
| "parseStep (KeyOrClose, st) t =
     (if t = TRBrace then closeContainer t st else startMember t st)"
| "parseStep (Key, st) t = startMember t st"
| "parseStep (Colon, st) t = (if t = TColon then Some (Value, st) else None)"
| "parseStep (CommaOrClose, st) t =
     (if t = TComma then
        (case st of
           FArray acc # st' \<Rightarrow> Some (Value, st)
         | FObject mem # st' \<Rightarrow> Some (Key, st)
         | _ \<Rightarrow> None)
      else closeContainer t st)"
| "parseStep (Finished v, st) t = None"

fun parseTokens :: "expect \<times> frame list \<Rightarrow> token list \<Rightarrow> json option" where
  "parseTokens (Finished v, []) [] = Some v"
| "parseTokens p [] = None"
| "parseTokens p (t # ts) =
     (case parseStep p t of None \<Rightarrow> None | Some p' \<Rightarrow> parseTokens p' ts)"

definition JSON_parse :: "string \<Rightarrow> json option" where
  "JSON_parse txt =
     (case lex txt of None \<Rightarrow> None | Some ts \<Rightarrow> parseTokens (Value, []) ts)"

section \<open>Remote coaching client (geminiService.ts)\<close>

datatype error =
  TypeError | DecodeError | ClientError | RemoteServiceError | AssessmentSynthesisFailed

text \<open>How an awaited remote call settles.\<close>

datatype 'a settled = Rejected | Fulfilled 'a

text \<open>
  The object that \<^verbatim>\<open>getGeminiClient()\<close> returns, cut down to its
  \<^verbatim>\<open>models.generateContent\<close>. The call itself is \<open>Inl\<close> the exception when the
  constructor \<^verbatim>\<open>new GoogleGenAI(...)\<close> throws.
\<close>

datatype 'r client = Client "string \<Rightarrow> 'r settled"

record Blob =
  data :: "string option"

record Part =
  inlineData :: "Blob option"

record Content =
  parts :: "Part list option"

record Candidate =
  candidateContent :: "Content option"

record GenerateContentResponse =
  candidates :: "Candidate list option"

text \<open>
  What the outside world supplies while one handler runs: the clocks, the
  decoder of \<^verbatim>\<open>audioUtils\<close> (not part of the sources; it yields the duration of the
  decoded buffer, or \<open>None\<close> when it throws), the assessment and chat models as
  functions of the request text, cut down to the \<^verbatim>\<open>text\<close> of their response, the
  outcome of \<^verbatim>\<open>getGeminiClient()\<close> in \<^verbatim>\<open>generateSpeech\<close>, and the conversion of a
  numeral to text. An \<^verbatim>\<open>await\<close> returns at once with what the environment supplies;
  other handlers do not run in between.
\<close>

record env =
  dateNow :: int
  ctxCurrentTime :: real
  decodeAudioData :: "string \<Rightarrow> real option"
  assessmentModel :: "string \<Rightarrow> string option settled"
  speechClient :: "error + GenerateContentResponse client"
  chatModel :: "string \<Rightarrow> string option settled"
  numberToString :: "string \<Rightarrow> string"

fun join :: "string \<Rightarrow> string list \<Rightarrow> string" where
  "join sep [] = []"
| "join sep [x] = x"
| "join sep (x # y # ys) = x @ sep @ join sep (y # ys)"

definition historyText :: "Message list \<Rightarrow> string" where
  "historyText history =
     join [CHR 0x0A]
       (map (\<lambda>m. (if role m = User then ''User'' else ''VocalCoach'') @ '': '' @ content m)
          history)"

definition assessmentContents :: "string \<Rightarrow> string" where
  "assessmentContents tape =
     ''Perform an elite linguistic and social assessment.'' @ [CHR 0x0A] @
     ''    '' @ [CHR 0x0A] @
     ''    SESSION TAPE:'' @ [CHR 0x0A] @
     ''    '' @ tape @ [CHR 0x0A] @
     ''    '' @ [CHR 0x0A] @
     ''    TASKS:'' @ [CHR 0x0A] @
     ''    1. Score level (Novice to Advanced).'' @ [CHR 0x0A] @
     ''    2. Analyze vocabulary, grammar, and social fluency.'' @ [CHR 0x0A] @
     ''    3. Extract '' @ [CHR 0x22] @ ''Can-Do'' @ [CHR 0x22] @
       '' quotes with translations.'' @ [CHR 0x0A] @
     ''    4. Extract '' @ [CHR 0x22] @ ''Growth'' @ [CHR 0x22] @
       '' points with corrections.'' @ [CHR 0x0A] @
     ''    5. Generate a full session transcript in Latin script.'' @ [CHR 0x0A] @
     ''    6. Provide a 1-sentence summary in English.'' @ [CHR 0x0A] @
     ''    ''"

text \<open>\<^verbatim>\<open>response.text || '{}'\<close>: an absent and an empty text both give \<^verbatim>\<open>'{}'\<close>.\<close>

definition textOrEmptyObject :: "string option \<Rightarrow> string" where
  "textOrEmptyObject txt = (case txt of None \<Rightarrow> ''{}'' | Some t \<Rightarrow> if t = [] then ''{}'' else t)"

text \<open>
  \<^verbatim>\<open>generateAssessment\<close>: making the client and the remote call are both outside
  the \<^verbatim>\<open>try\<close>, so either failing passes to the caller (one outcome, \<open>Rejected\<close>,
  stands for both); a \<^verbatim>\<open>SyntaxError\<close> of \<^verbatim>\<open>JSON.parse\<close> becomes
  \<^verbatim>\<open>Error("Assessment synthesis failed.")\<close>.
\<close>

definition generateAssessment ::
  "(string \<Rightarrow> string option settled) \<Rightarrow> Message list \<Rightarrow> error + json" where
  "generateAssessment generateContent history =
     (case generateContent (assessmentContents (historyText history)) of
        Rejected \<Rightarrow> Inl RemoteServiceError
      | Fulfilled txt \<Rightarrow>
          (case JSON_parse (textOrEmptyObject txt) of
             None \<Rightarrow> Inl AssessmentSynthesisFailed
           | Some v \<Rightarrow> Inr v))"

text \<open>\<^verbatim>\<open>response.candidates?.[0]?.content?.parts?.[0]?.inlineData?.data\<close>\<close>

definition firstInlineData :: "GenerateContentResponse \<Rightarrow> string option" where
  "firstInlineData response =
     (case candidates response of
        Some (c # _) \<Rightarrow>
          (case candidateContent c of
             Some ct \<Rightarrow>
               (case parts ct of
                  Some (p # _) \<Rightarrow>
                    (case inlineData p of Some b \<Rightarrow> data b | None \<Rightarrow> None)
                | _ \<Rightarrow> None)
           | None \<Rightarrow> None)
      | _ \<Rightarrow> None)"

definition speechContents :: "string \<Rightarrow> string" where
  "speechContents t = ''Say this report summary clearly in English: '' @ t"

text \<open>
  \<^verbatim>\<open>generateSpeech\<close>. \<^verbatim>\<open>const ai = getGeminiClient()\<close> comes before the \<^verbatim>\<open>try\<close>: an
  exception of the constructor is the exception of \<^verbatim>\<open>generateSpeech\<close>. With a
  client, the inner \<open>case\<close> is the body of the \<^verbatim>\<open>try\<close> and the outer one the
  \<^verbatim>\<open>catch\<close>, which returns \<^verbatim>\<open>undefined\<close>.
\<close>

definition generateSpeech ::
  "error + GenerateContentResponse client \<Rightarrow> string \<Rightarrow> error + string option" where
  "generateSpeech getGeminiClient t =
     (case getGeminiClient of
        Inl thrown \<Rightarrow> Inl thrown
      | Inr (Client generateContent) \<Rightarrow>
          (case (case generateContent (speechContents t) of
                   Rejected \<Rightarrow> Inl RemoteServiceError
                 | Fulfilled response \<Rightarrow> Inr (firstInlineData response)) of
             Inl e \<Rightarrow> Inr None
           | Inr payload \<Rightarrow> Inr payload))"

section \<open>The AssessmentReport shape (types.ts)\<close>

text \<open>Property lookup on a parsed value; of duplicate keys the last one counts.\<close>

definition getProp :: "json \<Rightarrow> string \<Rightarrow> json option" where
  "getProp v k = (case v of JObject kvs \<Rightarrow> map_of (rev kvs) k | _ \<Rightarrow> None)"

definition isString :: "json option \<Rightarrow> bool" where
  "isString v = (case v of Some (JString _) \<Rightarrow> True | _ \<Rightarrow> False)"

definition isPairList :: "string \<Rightarrow> string \<Rightarrow> json option \<Rightarrow> bool" where
  "isPairList k1 k2 v =
     (case v of
        Some (JArray xs) \<Rightarrow> list_all (\<lambda>x. isString (getProp x k1) \<and> isString (getProp x k2)) xs
      | _ \<Rightarrow> False)"

definition isProficiencyLevel :: "json option \<Rightarrow> bool" where
  "isProficiencyLevel v =
     (case v of
        Some (JString l) \<Rightarrow> l \<in> set [''Novice'', ''Beginner'', ''Intermediate'', ''Advanced'']
      | _ \<Rightarrow> False)"

definition isAssessmentReport :: "json \<Rightarrow> bool" where
  "isAssessmentReport v =
     (isProficiencyLevel (getProp v ''overallScore'')
      \<and> isString (getProp v ''functionalAbility'')
      \<and> (case getProp v ''precisionAnalysis'' of
            Some pa \<Rightarrow> isString (getProp pa ''vocabulary'') \<and> isString (getProp pa ''grammar'')
                       \<and> isString (getProp pa ''fluency'')
          | None \<Rightarrow> False)
      \<and> isString (getProp v ''contentDepth'')
      \<and> isPairList ''quote'' ''translation'' (getProp v ''canDo'')
      \<and> isPairList ''quote'' ''correction'' (getProp v ''cannotYetDo'')
      \<and> isString (getProp v ''summary'')
      \<and> isString (getProp v ''fullSessionTranscript''))"

text \<open>The \<^verbatim>\<open>required\<close> list of the response schema sent with the request.\<close>

definition requiredFields :: "string list" where
  "requiredFields =
     [''overallScore'', ''functionalAbility'', ''precisionAnalysis'', ''summary'',
      ''fullSessionTranscript'']"

definition hasRequiredFields :: "json \<Rightarrow> bool" where
  "hasRequiredFields v = list_all (\<lambda>k. getProp v k \<noteq> None) requiredFields"

section \<open>Assessment pipeline (App.tsx)\<close>

text \<open>The results of a list of evaluations, or the first exception among them.\<close>

fun collect :: "(error + 'a) list \<Rightarrow> error + 'a list" where
  "collect [] = Inr []"
| "collect (x # xs) =
     (case x of
        Inl e \<Rightarrow> Inl e
      | Inr v \<Rightarrow> (case collect xs of Inl e \<Rightarrow> Inl e | Inr vs \<Rightarrow> Inr (v # vs)))"

text \<open>
  The text a template literal makes of a parsed value. An array is joined with
  commas, \<^verbatim>\<open>null\<close> elements left empty. An object without a member named
  \<^verbatim>\<open>toString\<close> inherits the method that gives \<^verbatim>\<open>[object Object]\<close>; with such a
  member, which is never a function in a parsed value, the conversion throws a
  \<^verbatim>\<open>TypeError\<close>.
\<close>

fun templateString :: "(string \<Rightarrow> string) \<Rightarrow> json \<Rightarrow> error + string" where
  "templateString num JNull = Inr ''null''"
| "templateString num (JBool b) = Inr (if b then ''true'' else ''false'')"
| "templateString num (JNumber n) = Inr (num n)"
| "templateString num (JString str) = Inr str"
| "templateString num (JArray xs) =
     (case collect (map (\<lambda>x. if x = JNull then Inr [] else templateString num x) xs) of
        Inl e \<Rightarrow> Inl e
      | Inr strs \<Rightarrow> Inr (join '','' strs))"
| "templateString num (JObject kvs) =
     (if ''toString'' \<in> set (map fst kvs) then Inl TypeError else Inr ''[object Object]'')"

text \<open>
  \<^verbatim>\<open>`Your report is ready. ${assessment.summary}`\<close>: reading a property of \<^verbatim>\<open>null\<close>
  throws a \<^verbatim>\<open>TypeError\<close>; an absent property is \<^verbatim>\<open>undefined\<close>.
\<close>

definition readoutText :: "(string \<Rightarrow> string) \<Rightarrow> json \<Rightarrow> error + string" where
  "readoutText num assessment =
     (if assessment = JNull then Inl TypeError
      else (case getProp assessment ''summary'' of
              None \<Rightarrow> Inr (''Your report is ready. '' @ ''undefined'')
            | Some v \<Rightarrow>
                (case templateString num v of
                   Inl e \<Rightarrow> Inl e
                 | Inr str \<Rightarrow> Inr (''Your report is ready. '' @ str))))"

text \<open>
  The body of the \<^verbatim>\<open>try\<close> of \<^verbatim>\<open>handleTriggerAssessment\<close>: the state reached and the
  exception thrown, if any. \<^verbatim>\<open>setReport(null)\<close> stores no report.
\<close>

definition assessmentBody :: "env \<Rightarrow> Message list \<Rightarrow> state \<Rightarrow> error option \<times> state" where
  "assessmentBody e history s =
     (case generateAssessment (assessmentModel e) history of
        Inl err \<Rightarrow> (Some err, s)
      | Inr assessment \<Rightarrow>
          (let s2 = s\<lparr>report := (if assessment = JNull then None else Some assessment),
                      appState := REPORT\<rparr>
           in case readoutText (numberToString e) assessment of
                Inl err \<Rightarrow> (Some err, s2)
              | Inr txt \<Rightarrow>
                  (case generateSpeech (speechClient e) txt of
                     Inl err \<Rightarrow> (Some err, s2)
                   | Inr None \<Rightarrow> (None, s2)
                   | Inr (Some base64Audio) \<Rightarrow>
                       if base64Audio = [] then (None, s2)
                       else (case decodeAudioData e base64Audio of
                               None \<Rightarrow> (Some DecodeError, s2)
                             | Some d \<Rightarrow>
                                 (None, s2\<lparr>readouts := readouts s2 @ [base64Audio]\<rparr>)))))"

text \<open>
  \<^verbatim>\<open>handleTriggerAssessment\<close>: what it does before the first \<^verbatim>\<open>await\<close>, and the whole
  of it with its \<^verbatim>\<open>catch\<close> and \<^verbatim>\<open>finally\<close>.
\<close>

definition assessmentStarted :: "state \<Rightarrow> state" where
  "assessmentStarted s = s\<lparr>appState := ASSESSING, isLoading := True\<rparr>"

definition handleTriggerAssessment :: "env \<Rightarrow> Message list \<Rightarrow> state \<Rightarrow> state" where
  "handleTriggerAssessment e history s =
     (let (thrown, s2) = assessmentBody e history (assessmentStarted s);
          s3 = (case thrown of
                  None \<Rightarrow> s2
                | Some err \<Rightarrow>
                    s2\<lparr>appState := CHATTING,
                       alerts := alerts s2 @ [''Assessment synthesis failed.'']\<rparr>)
      in s3\<lparr>isLoading := False\<rparr>)"

section \<open>Text turns (App.tsx)\<close>

text \<open>
  \<^verbatim>\<open>!text.trim()\<close>: the text consists of white space and line terminators only.
  Those outside ASCII are U+00A0, U+1680, U+2000 to U+200A, U+2028, U+2029, U+202F,
  U+205F, U+3000 and U+FEFF, here in their UTF-8 forms of two and three bytes.
\<close>

definition isTrimSpace :: "char \<Rightarrow> bool" where
  "isTrimSpace c = (c = CHR 0x20 \<or> (9 \<le> (of_char c :: nat) \<and> (of_char c :: nat) \<le> 13))"

definition isTrimSpace3 :: "char \<Rightarrow> char \<Rightarrow> char \<Rightarrow> bool" where
  "isTrimSpace3 a b c =
     ((a = CHR 0xE1 \<and> b = CHR 0x9A \<and> c = CHR 0x80)
      \<or> (a = CHR 0xE2 \<and> b = CHR 0x80 \<and>
          ((128 \<le> (of_char c :: nat) \<and> (of_char c :: nat) \<le> 138)
           \<or> c = CHR 0xA8 \<or> c = CHR 0xA9 \<or> c = CHR 0xAF))
      \<or> (a = CHR 0xE2 \<and> b = CHR 0x81 \<and> c = CHR 0x9F)
      \<or> (a = CHR 0xE3 \<and> b = CHR 0x80 \<and> c = CHR 0x80)
      \<or> (a = CHR 0xEF \<and> b = CHR 0xBB \<and> c = CHR 0xBF))"

fun isBlank :: "string \<Rightarrow> bool" where
  "isBlank [] = True"
| "isBlank (a # cs) =
     (if isTrimSpace a then isBlank cs
      else if a = CHR 0xC2 then
        (case cs of b # cs' \<Rightarrow> b = CHR 0xA0 \<and> isBlank cs' | [] \<Rightarrow> False)
      else
        (case cs of
           b # c # cs' \<Rightarrow> isTrimSpace3 a b c \<and> isBlank cs'
         | _ \<Rightarrow> False))"

text \<open>The remote chat turn: \<^verbatim>\<open>try\<close>, \<^verbatim>\<open>catch\<close> (which only logs) and \<^verbatim>\<open>finally\<close>.\<close>

definition sendChat :: "env \<Rightarrow> string \<Rightarrow> state \<Rightarrow> state" where
  "sendChat e t s =
     (let s1 = s\<lparr>isLoading := True\<rparr>;
          s2 = (case chatModel e t of
                  Rejected \<Rightarrow> s1
                | Fulfilled r \<Rightarrow>
                    s1\<lparr>messages := messages s1 @
                         [\<lparr>role = Model,
                           content = (case r of
                                        None \<Rightarrow> ''...''
                                      | Some x \<Rightarrow> if x = [] then ''...'' else x),
                           senderName = None, timestamp = dateNow e\<rparr>]\<rparr>)
      in s2\<lparr>isLoading := False\<rparr>)"

text \<open>
  \<^verbatim>\<open>handleSendMessage\<close>. The gate and the history handed to the assessment are read
  from the state as it was when the handler was called.
\<close>

definition handleSendMessage :: "env \<Rightarrow> string \<Rightarrow> bool \<Rightarrow> state \<Rightarrow> state" where
  "handleSendMessage e t isInitial s =
     (if isBlank t \<and> \<not> isInitial then s
      else if \<not> chatRef s then s
      else
        (let s0 = (if isRecording s then s\<lparr>isRecording := False\<rparr> else s) in
         if \<not> isInitial then
           (let userMsg = \<lparr>role = User, content = t, senderName = None, timestamp = dateNow e\<rparr>;
                s1 = s0\<lparr>sessionStartTime :=
                           (if sessionStartTime s = None \<or> sessionStartTime s = Some 0
                            then Some (dateNow e) else sessionStartTime s),
                         messages := messages s0 @ [userMsg],
                         input := []\<rparr>
            in if isTrigger t isInitial \<and> canRequestAssessment s
               then handleTriggerAssessment e (messages s @ [userMsg]) s1
               else sendChat e t s1)
         else sendChat e t s0))"

section \<open>Live voice session (App.tsx)\<close>

record LiveServerContent =
  modelTurn :: "Content option"
  inputTranscription :: "string option"
  outputTranscription :: "string option"
  turnComplete :: bool
  interrupted :: bool

record LiveServerMessage =
  serverContent :: "LiveServerContent option"

definition stopLiveSession :: "state \<Rightarrow> state" where
  "stopLiveSession s =
     s\<lparr>liveSessionRef := False, audioContextInRef := False, audioContextOutRef := False,
       isLive := False\<rparr>"

text \<open>The state of \<^verbatim>\<open>App\<close> when it is mounted at time \<open>now\<close>.\<close>

definition initialState :: "int \<Rightarrow> state" where
  "initialState now =
     \<lparr>messages = [], input = [], appState = CHATTING, isLoading = False, report = None,
      isRecording = False, isLive = False, sessionStartTime = None, currentTime = now,
      isSessionActive = False, chatRef = False, liveSessionRef = False,
      audioContextInRef = False, audioContextOutRef = False, nextStartTimeRef = 0,
      audioSourcesRef = [], transcriptionBufferRef = \<lparr>user = [], model = []\<rparr>,
      stopped = [], alerts = [], readouts = []\<rparr>"


text \<open>
  \<^verbatim>\<open>startLiveSession\<close> when the microphone is granted and the connection opens
  (\<^verbatim>\<open>onopen\<close> clears the loading flag).
\<close>

definition startLiveSession :: "env \<Rightarrow> state \<Rightarrow> state" where
  "startLiveSession e s =
     (if isLive s then stopLiveSession s
      else s\<lparr>sessionStartTime :=
                (if sessionStartTime s = None \<or> sessionStartTime s = Some 0
                 then Some (dateNow e) else sessionStartTime s),
              isSessionActive := True, isLive := True, audioContextInRef := True,
              audioContextOutRef := True, nextStartTimeRef := 0, liveSessionRef := True,
              isLoading := False\<rparr>)"

text \<open>
  \<^verbatim>\<open>message.serverContent?.modelTurn?.parts[0]?.inlineData?.data\<close>: \<^verbatim>\<open>parts\<close> is
  indexed without \<^verbatim>\<open>?.\<close>, so a model turn without parts throws.
\<close>

definition base64Audio :: "LiveServerMessage \<Rightarrow> error + string option" where
  "base64Audio message =
     (case serverContent message of
        None \<Rightarrow> Inr None
      | Some sc \<Rightarrow>
          (case modelTurn sc of
             None \<Rightarrow> Inr None
           | Some mt \<Rightarrow>
               (case parts mt of
                  None \<Rightarrow> Inl TypeError
                | Some [] \<Rightarrow> Inr None
                | Some (p # _) \<Rightarrow>
                    Inr (case inlineData p of Some b \<Rightarrow> data b | None \<Rightarrow> None))))"

text \<open>
  The audio branch: the cursor is raised to the output clock, the chunk decoded,
  started at the cursor, the cursor advanced by the duration of the buffer and
  the source added to the tracked set.
\<close>

definition audioChunk :: "env \<Rightarrow> string option \<Rightarrow> state \<Rightarrow> error option \<times> state" where
  "audioChunk e audio s =
     (case audio of
        None \<Rightarrow> (None, s)
      | Some b64 \<Rightarrow>
          if b64 \<noteq> [] \<and> audioContextOutRef s then
            (let s1 = s\<lparr>nextStartTimeRef := max (nextStartTimeRef s) (ctxCurrentTime e)\<rparr>
             in case decodeAudioData e b64 of
                  None \<Rightarrow> (Some DecodeError, s1)
                | Some d \<Rightarrow>
                    (None,
                     s1\<lparr>nextStartTimeRef := nextStartTimeRef s1 + d,
                        audioSourcesRef := audioSourcesRef s1 @
                          [\<lparr>startAt = nextStartTimeRef s1, duration = d\<rparr>]\<rparr>))
          else (None, s))"

text \<open>The \<^verbatim>\<open>ended\<close> listener of a source removes it from the tracked set.\<close>

definition onended :: "AudioSource \<Rightarrow> state \<Rightarrow> state" where
  "onended src s = s\<lparr>audioSourcesRef := remove1 src (audioSourcesRef s)\<rparr>"

definition inputTranscriptionBranch :: "LiveServerContent \<Rightarrow> state \<Rightarrow> state" where
  "inputTranscriptionBranch sc s =
     (case inputTranscription sc of
        None \<Rightarrow> s
      | Some t \<Rightarrow>
          s\<lparr>transcriptionBufferRef :=
              (transcriptionBufferRef s)\<lparr>user := user (transcriptionBufferRef s) @ t\<rparr>\<rparr>)"

text \<open>
  The handler passes updaters to \<^verbatim>\<open>setMessages\<close>. React runs them, in the order in
  which they were passed, once the call of the handler has ended; what an updater
  reads from a ref or a clock is what it holds then. The handler passes three
  kinds: the updater of the output transcription branch, which holds the delta
  \<^verbatim>\<open>text\<close>; the updater of the turn-complete branch, which holds \<^verbatim>\<open>userText\<close>; and
  the updater that hands the timeline to the assessment.
\<close>

datatype updater = MergeModelText string | FlushUserText string | HandToAssessment

text \<open>
  The updater of the output transcription branch; \<open>buffered\<close> is
  \<^verbatim>\<open>transcriptionBufferRef.current.model\<close>.
\<close>

definition mergeModelText :: "string \<Rightarrow> string \<Rightarrow> int \<Rightarrow> Message list \<Rightarrow> Message list" where
  "mergeModelText buffered t now prev =
     (if prev \<noteq> [] \<and> role (last prev) = Model
      then butlast prev @ [(last prev)\<lparr>content := buffered\<rparr>]
      else prev @ [\<lparr>role = Model, content = t, senderName = None, timestamp = now\<rparr>])"

text \<open>
  The updater of the turn-complete branch:
  \<^verbatim>\<open>[...withoutLast, userMessage, lastModel].filter(Boolean)\<close>, where \<^verbatim>\<open>lastModel\<close> is
  the last entry whatever its role, and \<^verbatim>\<open>undefined\<close> (dropped by the filter) when
  there is none.
\<close>

definition flushUserText :: "string \<Rightarrow> int \<Rightarrow> Message list \<Rightarrow> Message list" where
  "flushUserText userText now prev =
     (let withoutLast = (if prev \<noteq> [] \<and> role (last prev) = Model then butlast prev else prev)
      in withoutLast
         @ [\<lparr>role = User, content = userText, senderName = None, timestamp = now\<rparr>]
         @ (if prev = [] then [] else [last prev]))"

text \<open>React runs an updater on the state, and a list of them in order.\<close>

definition runUpdater :: "env \<Rightarrow> updater \<Rightarrow> state \<Rightarrow> state" where
  "runUpdater e u s =
     (case u of
        MergeModelText t \<Rightarrow>
          s\<lparr>messages :=
              mergeModelText (model (transcriptionBufferRef s)) t (dateNow e) (messages s)\<rparr>
      | FlushUserText userText \<Rightarrow>
          s\<lparr>messages := flushUserText userText (dateNow e) (messages s)\<rparr>
      | HandToAssessment \<Rightarrow> handleTriggerAssessment e (messages s) s)"

fun runUpdaters :: "env \<Rightarrow> updater list \<Rightarrow> state \<Rightarrow> state" where
  "runUpdaters e [] s = s"
| "runUpdaters e (u # us) s = runUpdaters e us (runUpdater e u s)"

text \<open>
  The output transcription branch of the handler: the delta is added to the model
  buffer and the updater passed.
\<close>

definition outputTranscriptionCall :: "LiveServerContent \<Rightarrow> state \<Rightarrow> state \<times> updater list" where
  "outputTranscriptionCall sc s =
     (case outputTranscription sc of
        None \<Rightarrow> (s, [])
      | Some t \<Rightarrow>
          (s\<lparr>transcriptionBufferRef :=
               (transcriptionBufferRef s)\<lparr>model := model (transcriptionBufferRef s) @ t\<rparr>\<rparr>,
           [MergeModelText t]))"

text \<open>
  The turn-complete branch of the handler: it passes the updater that flushes the
  user text, stops the live session and passes the updater that starts the
  assessment when the trigger fires, and clears both buffers. \<open>r\<close> is the render
  in which \<^verbatim>\<open>startLiveSession\<close> ran: the handler calls the
  \<^verbatim>\<open>canRequestAssessment\<close> of that render.
\<close>

definition turnCompleteCall :: "state \<Rightarrow> LiveServerContent \<Rightarrow> state \<Rightarrow> state \<times> updater list" where
  "turnCompleteCall r sc s =
     (if turnComplete sc then
        (let userText = user (transcriptionBufferRef s);
             flush = (if userText \<noteq> [] then [FlushUserText userText] else []);
             fires = (liveTrigger userText \<and> canRequestAssessment r);
             s1 = (if fires then stopLiveSession s else s)
         in (s1\<lparr>transcriptionBufferRef := \<lparr>user = [], model = []\<rparr>\<rparr>,
             flush @ (if fires then [HandToAssessment] else [])))
      else (s, []))"

text \<open>
  The turn-complete branch followed by its updaters, as for a message that passes
  no other updater.
\<close>

definition turnCompleteBranch :: "state \<Rightarrow> env \<Rightarrow> LiveServerContent \<Rightarrow> state \<Rightarrow> state" where
  "turnCompleteBranch r e sc s =
     (case turnCompleteCall r sc s of (s1, us) \<Rightarrow> runUpdaters e us s1)"

definition interruptedBranch :: "LiveServerContent \<Rightarrow> state \<Rightarrow> state" where
  "interruptedBranch sc s =
     (if interrupted sc then
        s\<lparr>stopped := stopped s @ audioSourcesRef s, audioSourcesRef := [],
          nextStartTimeRef := 0\<rparr>
      else s)"

text \<open>
  The call of \<^verbatim>\<open>onmessage\<close>: the branches in the order of the source. It gives the
  exception thrown, if any, the state it leaves and the updaters it has passed. An
  exception ends the handler; the state reached so far stays.
\<close>

definition onmessageCall ::
  "state \<Rightarrow> env \<Rightarrow> LiveServerMessage \<Rightarrow> state \<Rightarrow> error option \<times> state \<times> updater list" where
  "onmessageCall r e message s =
     (case base64Audio message of
        Inl err \<Rightarrow> (Some err, s, [])
      | Inr audio \<Rightarrow>
          (case audioChunk e audio s of
             (Some err, s1) \<Rightarrow> (Some err, s1, [])
           | (None, s1) \<Rightarrow>
               (case serverContent message of
                  None \<Rightarrow> (None, s1, [])
                | Some sc \<Rightarrow>
                    (case outputTranscriptionCall sc (inputTranscriptionBranch sc s1) of
                       (s2, merge) \<Rightarrow>
                         (case turnCompleteCall r sc s2 of
                            (s3, flush) \<Rightarrow>
                              (None, interruptedBranch sc s3, merge @ flush))))))"

text \<open>\<^verbatim>\<open>onmessage\<close>: the call, then the updaters that the call has passed.\<close>

definition onmessage :: "state \<Rightarrow> env \<Rightarrow> LiveServerMessage \<Rightarrow> state \<Rightarrow> error option \<times> state" where
  "onmessage r e message s =
     (case onmessageCall r e message s of (thrown, s1, us) \<Rightarrow> (thrown, runUpdaters e us s1))"

text \<open>
  A sequence of events, each with its environment, delivered in order; the
  updaters of a call are run before the next event is handled.
\<close>

fun deliverAll :: "state \<Rightarrow> (env \<times> LiveServerMessage) list \<Rightarrow> state \<Rightarrow> state" where
  "deliverAll r [] s = s"
| "deliverAll r ((e, m) # evs) s = deliverAll r evs (snd (onmessage r e m s))"

text \<open>The events of the live session that carry one thing each.\<close>

definition noContent :: LiveServerContent where
  "noContent =
     \<lparr>modelTurn = None, inputTranscription = None, outputTranscription = None,
      turnComplete = False, interrupted = False\<rparr>"

definition audioChunkEvent :: "string \<Rightarrow> LiveServerMessage" where
  "audioChunkEvent b64 =
     \<lparr>serverContent = Some (noContent
        \<lparr>modelTurn := Some \<lparr>parts = Some [\<lparr>inlineData = Some \<lparr>data = Some b64\<rparr>\<rparr>]\<rparr>\<rparr>)\<rparr>"

definition inputTranscriptionEvent :: "string \<Rightarrow> LiveServerMessage" where
  "inputTranscriptionEvent t = \<lparr>serverContent = Some (noContent\<lparr>inputTranscription := Some t\<rparr>)\<rparr>"

definition outputTranscriptionEvent :: "string \<Rightarrow> LiveServerMessage" where
  "outputTranscriptionEvent t = \<lparr>serverContent = Some (noContent\<lparr>outputTranscription := Some t\<rparr>)\<rparr>"


definition turnCompleteEvent :: LiveServerMessage where
  "turnCompleteEvent = \<lparr>serverContent = Some (noContent\<lparr>turnComplete := True\<rparr>)\<rparr>"

definition interruptedEvent :: LiveServerMessage where
  "interruptedEvent = \<lparr>serverContent = Some (noContent\<lparr>interrupted := True\<rparr>)\<rparr>"

section \<open>Playback schedule\<close>

text \<open>No source starts before the one scheduled before it has ended.\<close>

definition noOverlap :: "AudioSource list \<Rightarrow> bool" where
  "noOverlap srcs = successively (\<lambda>a b. startAt a + duration a \<le> startAt b) srcs"

text \<open>
  The sources tracked beyond the first \<open>k\<close> are free of overlap, and the cursor is
  not before the end of the last of them.
\<close>

definition cursorCovers :: "nat \<Rightarrow> state \<Rightarrow> bool" where
  "cursorCovers k s =
     (k \<le> length (audioSourcesRef s)
      \<and> noOverlap (drop k (audioSourcesRef s))
      \<and> (drop k (audioSourcesRef s) = []
         \<or> startAt (last (audioSourcesRef s)) + duration (last (audioSourcesRef s))
              \<le> nextStartTimeRef s))"

definition audioChunkEvents :: "(env \<times> string) list \<Rightarrow> (env \<times> LiveServerMessage) list" where
  "audioChunkEvents chunks = map (\<lambda>(e, b64). (e, audioChunkEvent b64)) chunks"

text \<open>The sources that a sequence of events adds to the tracked set of \<open>s\<close>.\<close>

definition scheduledBy :: "state \<Rightarrow> (env \<times> LiveServerMessage) list \<Rightarrow> state \<Rightarrow> AudioSource list" where
  "scheduledBy r evs s = drop (length (audioSourcesRef s)) (audioSourcesRef (deliverAll r evs s))"

section \<open>Sample environments and runs\<close>

text \<open>
  An environment in which every remote call is rejected and a payload of \<open>n\<close>
  characters decodes to a buffer of \<open>n\<close> seconds.
\<close>

definition sampleEnv :: env where
  "sampleEnv =
     \<lparr>dateNow = 2000, ctxCurrentTime = 0, decodeAudioData = (\<lambda>b. Some (real (length b))),
      assessmentModel = (\<lambda>c. Rejected), speechClient = Inr (Client (\<lambda>c. Rejected)),
      chatModel = (\<lambda>c. Rejected), numberToString = (\<lambda>n. n)\<rparr>"

text \<open>The assessment model answers with prose, with an empty text, with a JSON array.\<close>

definition malformedEnv :: env where
  "malformedEnv = sampleEnv\<lparr>assessmentModel := (\<lambda>c. Fulfilled (Some ''Sorry, I cannot.''))\<rparr>"

definition emptyTextEnv :: env where
  "emptyTextEnv = sampleEnv\<lparr>assessmentModel := (\<lambda>c. Fulfilled (Some []))\<rparr>"

definition arrayTextEnv :: env where
  "arrayTextEnv = sampleEnv\<lparr>assessmentModel := (\<lambda>c. Fulfilled (Some ''[1, 2]''))\<rparr>"



text \<open>A live session just started on a freshly mounted application.\<close>

definition freshLive :: state where
  "freshLive = startLiveSession sampleEnv (initialState 1000)"

text \<open>
  A live turn in which the model has answered and the transcript of the user's
  speech is buffered.
\<close>

definition pendingTurn :: state where
  "pendingTurn =
     freshLive
       \<lparr>messages := [\<lparr>role = User, content = ''hi'', senderName = None, timestamp = 1100\<rparr>,
                     \<lparr>role = Model, content = ''It is a pen'', senderName = None,
                      timestamp = 1200\<rparr>],
        transcriptionBufferRef := \<lparr>user = ''what is this'', model = ''It is a pen''\<rparr>\<rparr>"

text \<open>The same turn when nothing of the user's speech was transcribed.\<close>

definition silentTurn :: state where
  "silentTurn = pendingTurn\<lparr>transcriptionBufferRef := \<lparr>user = [], model = ''It is a pen''\<rparr>\<rparr>"

text \<open>Two chunks have been scheduled in a fresh live session.\<close>

definition playingState :: state where
  "playingState =
     deliverAll freshLive (audioChunkEvents [(sampleEnv, ''AAAA''), (sampleEnv, ''BB'')]) freshLive"

text \<open>Three chunks, arriving when the output clock reads 0, 1 and 20 seconds.\<close>

definition threeChunks :: "(env \<times> string) list" where
  "threeChunks =
     [(sampleEnv, ''AAAA''), (sampleEnv\<lparr>ctxCurrentTime := 1\<rparr>, ''BB''),
      (sampleEnv\<lparr>ctxCurrentTime := 20\<rparr>, ''CCC'')]"


section \<open>Properties of the timer gate\<close>

text \<open>
  C7. \<^verbatim>\<open>canRequestAssessment()\<close> is true exactly when the elapsed session time is at
  least 180000 ms, where the elapsed time is \<open>currentTime - sessionStartTime\<close>, and
  zero when no session has been started (the program's test for that,
  \<^verbatim>\<open>!sessionStartTime\<close>, holds for \<^verbatim>\<open>null\<close> and for a start time of 0). At an elapsed
  time of 179999 ms it is false, at 180000 ms it is true.
\<close>

theorem canRequestAssessment_boundary:
  "canRequestAssessment s =
     (180000 \<le> (case sessionStartTime s of
                  None \<Rightarrow> 0
                | Some t \<Rightarrow> if t = 0 then 0 else currentTime s - t))
   \<and> \<not> canRequestAssessment (s\<lparr>sessionStartTime := Some 1000, currentTime := 1000 + 179999\<rparr>)
   \<and> canRequestAssessment (s\<lparr>sessionStartTime := Some 1000, currentTime := 1000 + 180000\<rparr>)
   \<and> \<not> canRequestAssessment (s\<lparr>sessionStartTime := None\<rparr>)"
  by (auto simp: canRequestAssessment_def getElapsedTime_def split: option.split)

section \<open>Properties of the trigger phrases\<close>

lemma startsWith_prefix: "startsWith s k = prefix k s"
  by (induction s k rule: startsWith.induct) auto

lemma includes_str_sublist: "includes_str s k = sublist k s"
proof (induction s)
  case Nil
  show ?case by (cases k) simp_all
next
  case (Cons c cs)
  then show ?case by (simp add: startsWith_prefix sublist_Cons_right)
qed

lemma matchesTrigger_sublist:
  "matchesTrigger t = (\<exists>k \<in> set triggerKeywords. sublist k (toLowerCase t))"
  by (simp add: matchesTrigger_def list_ex_iff includes_str_sublist)

lemma liveTrigger_matches: "liveTrigger t = matchesTrigger t"
  by (auto simp: liveTrigger_def matchesTrigger_def triggerKeywords_def toLowerCase_def)

lemma toLowerCase_phrase: "toLowerCase ''I need my REPORT now'' = ''i need my report now''"
  by code_simp

lemma report_in_phrase: "sublist ''report'' ''i need my report now''"
proof -
  have "''i need my report now'' = ''i need my '' @ ''report'' @ '' now''" by simp
  then show ?thesis unfolding sublist_def by blast
qed

lemma sublist_chain: "sublist a b \<Longrightarrow> sublist b c \<Longrightarrow> sublist a c"
  unfolding sublist_def by (metis append.assoc)

lemma containing_phrase_matches:
  assumes "sublist ''I need my REPORT now'' t"
  shows "matchesTrigger t"
proof -
  have "sublist (toLowerCase ''I need my REPORT now'') (toLowerCase t)"
    unfolding toLowerCase_def using assms by (rule map_mono_sublist)
  then have "sublist ''report'' (toLowerCase t)"
    using report_in_phrase sublist_chain unfolding toLowerCase_phrase by blast
  then show ?thesis
    by (auto simp: matchesTrigger_sublist triggerKeywords_def)
qed

text \<open>
  C6. The trigger test is a substring match of the lower-cased text against the
  fixed phrases: for a text of the user (\<open>isInitial\<close> false) the test of
  \<^verbatim>\<open>handleSendMessage\<close>, and for the flushed transcript the test of the
  turn-complete branch, hold exactly when the lower-cased text contains one of the
  three phrases. The test does not see the case of the letters: two texts with
  the same lower-case form are treated alike. Every text that contains
  \<^verbatim>\<open>I need my REPORT now\<close> matches.
\<close>

theorem trigger_is_case_insensitive_substring_match:
  "(isTrigger t False \<longleftrightarrow> (\<exists>k \<in> set triggerKeywords. sublist k (toLowerCase t)))
   \<and> (liveTrigger t \<longleftrightarrow> (\<exists>k \<in> set triggerKeywords. sublist k (toLowerCase t)))
   \<and> (toLowerCase t = toLowerCase t' \<longrightarrow>
        isTrigger t False = isTrigger t' False \<and> liveTrigger t = liveTrigger t')
   \<and> (sublist ''I need my REPORT now'' t \<longrightarrow> isTrigger t False \<and> liveTrigger t)"
  using containing_phrase_matches[of t]
  by (simp add: isTrigger_def liveTrigger_matches matchesTrigger_sublist)

theorem trigger_is_case_insensitive_substring_match_witness:
  "toLowerCase ''Well, I need my REPORT now!'' = toLowerCase ''well, i NEED my report NOW!''
   \<and> sublist ''I need my REPORT now'' ''Well, I need my REPORT now!''
   \<and> isTrigger ''Well, I need my REPORT now!'' False
   \<and> isTrigger ''well, i NEED my report NOW!'' False
   \<and> liveTrigger ''Well, I need my REPORT now!''
   \<and> \<not> isTrigger ''hello there'' False"
proof -
  have a: "toLowerCase ''Well, I need my REPORT now!'' = toLowerCase ''well, i NEED my report NOW!''"
    by code_simp
  have "''Well, I need my REPORT now!'' = ''Well, '' @ ''I need my REPORT now'' @ ''!''"
    by simp
  then have b: "sublist ''I need my REPORT now'' ''Well, I need my REPORT now!''"
    unfolding sublist_def by blast
  have c: "\<not> isTrigger ''hello there'' False"
    by code_simp
  from a b c
    trigger_is_case_insensitive_substring_match
      [of "''Well, I need my REPORT now!''" "''well, i NEED my report NOW!''"]
  show ?thesis by blast
qed

section \<open>Properties of the assessment pipeline\<close>

lemma JSON_parse_empty_object: "JSON_parse ''{}'' = Some (JObject [])"
  by (simp add: JSON_parse_def isWhiteSpace_def consToken_def startValue_def closeContainer_def)

lemma assessmentBody_failure:
  "generateAssessment (assessmentModel e) history = Inl err \<Longrightarrow>
   assessmentBody e history s = (Some err, s)"
  by (simp add: assessmentBody_def)

lemma assessmentBody_frame:
  "assessmentBody e h s = (x, s') \<Longrightarrow>
     messages s' = messages s \<and> audioSourcesRef s' = audioSourcesRef s
     \<and> stopped s' = stopped s \<and> nextStartTimeRef s' = nextStartTimeRef s
     \<and> transcriptionBufferRef s' = transcriptionBufferRef s"
  by (auto simp: assessmentBody_def Let_def split: sum.splits option.splits if_splits)

lemma handleTriggerAssessment_frame:
  "messages (handleTriggerAssessment e h s) = messages s
   \<and> audioSourcesRef (handleTriggerAssessment e h s) = audioSourcesRef s
   \<and> stopped (handleTriggerAssessment e h s) = stopped s
   \<and> nextStartTimeRef (handleTriggerAssessment e h s) = nextStartTimeRef s
   \<and> transcriptionBufferRef (handleTriggerAssessment e h s) = transcriptionBufferRef s"
proof -
  obtain x s' where b: "assessmentBody e h (assessmentStarted s) = (x, s')"
    by (cases "assessmentBody e h (assessmentStarted s)")
  from assessmentBody_frame[OF b] b show ?thesis
    by (simp add: handleTriggerAssessment_def assessmentStarted_def split: option.splits)
qed

lemma malformed_fails:
  "generateAssessment (assessmentModel malformedEnv) h = Inl AssessmentSynthesisFailed"
  by (simp add: generateAssessment_def malformedEnv_def sampleEnv_def textOrEmptyObject_def
      JSON_parse_def isWhiteSpace_def isNumberChar_def isDigit_def)

text \<open>
  C1 (as amended). \<^verbatim>\<open>generateAssessment\<close> fails with the synthesis error exactly when
  the response text, with \<^verbatim>\<open>{}\<close> standing in for an absent or empty text, is not
  well-formed JSON. A well-formed text is returned as parsed, with no check of the
  report fields; an absent or empty response text yields the empty object. A
  rejected remote call is passed on to the caller.
\<close>

theorem generateAssessment_fails_on_syntax_only:
  "(generateContent (assessmentContents (historyText history)) = Fulfilled txt \<longrightarrow>
      (generateAssessment generateContent history = Inl AssessmentSynthesisFailed
         \<longleftrightarrow> JSON_parse (textOrEmptyObject txt) = None)
      \<and> (\<forall>v. JSON_parse (textOrEmptyObject txt) = Some v \<longrightarrow>
             generateAssessment generateContent history = Inr v)
      \<and> (txt = None \<or> txt = Some [] \<longrightarrow>
             generateAssessment generateContent history = Inr (JObject [])))
   \<and> (generateContent (assessmentContents (historyText history)) = Rejected \<longrightarrow>
        generateAssessment generateContent history = Inl RemoteServiceError)"
  by (auto simp: generateAssessment_def textOrEmptyObject_def JSON_parse_empty_object
      split: option.splits)

theorem generateAssessment_fails_on_syntax_only_witness:
  "assessmentModel malformedEnv (assessmentContents (historyText [])) =
     Fulfilled (Some ''Sorry, I cannot.'')
   \<and> JSON_parse (textOrEmptyObject (Some ''Sorry, I cannot.'')) = None
   \<and> generateAssessment (assessmentModel malformedEnv) [] = Inl AssessmentSynthesisFailed
   \<and> assessmentModel arrayTextEnv (assessmentContents (historyText [])) =
       Fulfilled (Some ''[1, 2]'')
   \<and> JSON_parse (textOrEmptyObject (Some ''[1, 2]'')) = Some (JArray [JNumber ''1'', JNumber ''2''])
   \<and> generateAssessment (assessmentModel arrayTextEnv) [] =
       Inr (JArray [JNumber ''1'', JNumber ''2''])
   \<and> \<not> isAssessmentReport (JArray [JNumber ''1'', JNumber ''2''])
   \<and> assessmentModel sampleEnv (assessmentContents (historyText [])) = Rejected
   \<and> generateAssessment (assessmentModel sampleEnv) [] = Inl RemoteServiceError"
proof -
  have a: "assessmentModel malformedEnv (assessmentContents (historyText [])) =
     Fulfilled (Some ''Sorry, I cannot.'')"
    by (simp add: malformedEnv_def sampleEnv_def)
  have b: "JSON_parse (textOrEmptyObject (Some ''Sorry, I cannot.'')) = None"
    by code_simp
  have c: "assessmentModel arrayTextEnv (assessmentContents (historyText [])) =
       Fulfilled (Some ''[1, 2]'')"
    by (simp add: arrayTextEnv_def sampleEnv_def)
  have d: "JSON_parse (textOrEmptyObject (Some ''[1, 2]'')) =
       Some (JArray [JNumber ''1'', JNumber ''2''])"
    by code_simp
  have e: "\<not> isAssessmentReport (JArray [JNumber ''1'', JNumber ''2''])"
    by (simp add: isAssessmentReport_def getProp_def isProficiencyLevel_def)
  have f: "assessmentModel sampleEnv (assessmentContents (historyText [])) = Rejected"
    by (simp add: sampleEnv_def)
  from a b c d e f
    generateAssessment_fails_on_syntax_only
      [of "assessmentModel malformedEnv" "[]" "Some ''Sorry, I cannot.''"]
    generateAssessment_fails_on_syntax_only
      [of "assessmentModel arrayTextEnv" "[]" "Some ''[1, 2]''"]
    generateAssessment_fails_on_syntax_only [of "assessmentModel sampleEnv" "[]"]
  show ?thesis by blast
qed

text \<open>
  An empty response text is a response that cannot be parsed into the report
  shape; \<^verbatim>\<open>generateAssessment\<close> returns the empty object for it, which has none of
  the required fields.
\<close>

theorem generateAssessment_empty_text_returns_empty_object:
  "generateAssessment (assessmentModel emptyTextEnv) [] = Inr (JObject [])
   \<and> \<not> hasRequiredFields (JObject []) \<and> \<not> isAssessmentReport (JObject [])"
  by (simp add: generateAssessment_def emptyTextEnv_def sampleEnv_def textOrEmptyObject_def
      JSON_parse_empty_object hasRequiredFields_def requiredFields_def getProp_def
      isAssessmentReport_def isProficiencyLevel_def)

text \<open>
  C8. \<^verbatim>\<open>handleTriggerAssessment\<close> first enters \<open>ASSESSING\<close>. If the assessment
  synthesis call fails, the coordinator ends in \<open>CHATTING\<close> with the notice
  \<^verbatim>\<open>Assessment synthesis failed.\<close> shown; nothing else of the state changes: no
  report is stored and the message list is the one before the attempt.
\<close>

theorem assessment_failure_reverts_to_chatting:
  "appState (assessmentStarted s) = ASSESSING
   \<and> (generateAssessment (assessmentModel e) history = Inl err \<longrightarrow>
        handleTriggerAssessment e history s =
          s\<lparr>appState := CHATTING, isLoading := False,
            alerts := alerts s @ [''Assessment synthesis failed.'']\<rparr>
        \<and> appState (handleTriggerAssessment e history s) = CHATTING
        \<and> report (handleTriggerAssessment e history s) = report s
        \<and> messages (handleTriggerAssessment e history s) = messages s)"
  by (simp add: handleTriggerAssessment_def assessmentBody_failure assessmentStarted_def)

theorem assessment_failure_reverts_to_chatting_witness:
  "generateAssessment (assessmentModel malformedEnv) (messages pendingTurn) =
     Inl AssessmentSynthesisFailed
   \<and> appState (handleTriggerAssessment malformedEnv (messages pendingTurn) pendingTurn) = CHATTING
   \<and> report (handleTriggerAssessment malformedEnv (messages pendingTurn) pendingTurn) = None
   \<and> alerts (handleTriggerAssessment malformedEnv (messages pendingTurn) pendingTurn) =
       [''Assessment synthesis failed.'']
   \<and> messages (handleTriggerAssessment malformedEnv (messages pendingTurn) pendingTurn) =
       messages pendingTurn"
proof -
  note t = assessment_failure_reverts_to_chatting
      [of pendingTurn malformedEnv "messages pendingTurn" AssessmentSynthesisFailed]
  have r: "report pendingTurn = None" and a: "alerts pendingTurn = []"
    by (simp_all add: pendingTurn_def freshLive_def startLiveSession_def initialState_def)
  from t malformed_fails[of "messages pendingTurn"]
  have eq: "handleTriggerAssessment malformedEnv (messages pendingTurn) pendingTurn =
          pendingTurn\<lparr>appState := CHATTING, isLoading := False,
            alerts := alerts pendingTurn @ [''Assessment synthesis failed.'']\<rparr>"
    by blast
  show ?thesis
    unfolding eq using malformed_fails[of "messages pendingTurn"] by (simp add: r a)
qed




section \<open>Properties of the live event handler\<close>

lemma flushUserText_model:
  "role m = Model \<Longrightarrow>
   flushUserText t now (prior @ [m]) =
     prior @ [\<lparr>role = User, content = t, senderName = None, timestamp = now\<rparr>, m]"
  by (simp add: flushUserText_def)

lemma runUpdater_frame:
  "audioSourcesRef (runUpdater e u s) = audioSourcesRef s
   \<and> stopped (runUpdater e u s) = stopped s
   \<and> nextStartTimeRef (runUpdater e u s) = nextStartTimeRef s
   \<and> transcriptionBufferRef (runUpdater e u s) = transcriptionBufferRef s"
  by (cases u) (simp_all add: runUpdater_def handleTriggerAssessment_frame)

lemma runUpdaters_frame:
  "audioSourcesRef (runUpdaters e us s) = audioSourcesRef s
   \<and> stopped (runUpdaters e us s) = stopped s
   \<and> nextStartTimeRef (runUpdaters e us s) = nextStartTimeRef s
   \<and> transcriptionBufferRef (runUpdaters e us s) = transcriptionBufferRef s"
  by (induction us arbitrary: s) (simp_all add: runUpdater_frame)

lemma runUpdaters_append:
  "runUpdaters e (us @ vs) s = runUpdaters e vs (runUpdaters e us s)"
  by (induction us arbitrary: s) simp_all

lemma runUpdater_messages:
  "messages (runUpdater e (MergeModelText t) s) =
     mergeModelText (model (transcriptionBufferRef s)) t (dateNow e) (messages s)"
  "messages (runUpdater e (FlushUserText u) s) = flushUserText u (dateNow e) (messages s)"
  "messages (runUpdater e HandToAssessment s) = messages s"
  by (simp_all add: runUpdater_def handleTriggerAssessment_frame)

lemma turnCompleteCall_updaters:
  "messages (runUpdaters e (snd (turnCompleteCall r sc s)) s') =
     (if turnComplete sc \<and> user (transcriptionBufferRef s) \<noteq> []
      then flushUserText (user (transcriptionBufferRef s)) (dateNow e) (messages s')
      else messages s')"
  by (simp add: turnCompleteCall_def Let_def runUpdater_messages)

lemma turnCompleteCall_state:
  "messages (fst (turnCompleteCall r sc s)) = messages s
   \<and> audioSourcesRef (fst (turnCompleteCall r sc s)) = audioSourcesRef s
   \<and> stopped (fst (turnCompleteCall r sc s)) = stopped s
   \<and> nextStartTimeRef (fst (turnCompleteCall r sc s)) = nextStartTimeRef s
   \<and> transcriptionBufferRef (fst (turnCompleteCall r sc s)) =
       (if turnComplete sc then \<lparr>user = [], model = []\<rparr> else transcriptionBufferRef s)"
  by (simp add: turnCompleteCall_def Let_def stopLiveSession_def)

lemma turnCompleteBranch_split:
  "turnCompleteBranch r e sc s =
     runUpdaters e (snd (turnCompleteCall r sc s)) (fst (turnCompleteCall r sc s))"
  by (simp add: turnCompleteBranch_def split: prod.split)

lemma turnCompleteBranch_messages:
  "turnComplete sc \<Longrightarrow>
   messages (turnCompleteBranch r e sc s) =
     (if user (transcriptionBufferRef s) \<noteq> []
      then flushUserText (user (transcriptionBufferRef s)) (dateNow e) (messages s)
      else messages s)"
  by (simp add: turnCompleteBranch_split turnCompleteCall_updaters turnCompleteCall_state)

lemma turnCompleteBranch_buffer:
  "turnComplete sc \<Longrightarrow>
   transcriptionBufferRef (turnCompleteBranch r e sc s) = \<lparr>user = [], model = []\<rparr>"
  by (simp add: turnCompleteBranch_split runUpdaters_frame turnCompleteCall_state)

lemma onmessage_turnCompleteEvent:
  "onmessage r e turnCompleteEvent s =
     (None, turnCompleteBranch r e (noContent\<lparr>turnComplete := True\<rparr>) s)"
  by (simp add: onmessage_def onmessageCall_def turnCompleteEvent_def base64Audio_def
      noContent_def audioChunk_def
      inputTranscriptionBranch_def outputTranscriptionCall_def interruptedBranch_def
      turnCompleteBranch_def split: prod.split)


lemma onmessage_audioChunkEvent:
  "onmessage r e (audioChunkEvent b64) s = audioChunk e (Some b64) s"
  by (cases "audioChunk e (Some b64) s")
     (auto simp: onmessage_def onmessageCall_def audioChunkEvent_def base64Audio_def
      noContent_def
      inputTranscriptionBranch_def outputTranscriptionCall_def interruptedBranch_def
      turnCompleteCall_def split: option.splits)



lemma pendingTurn_messages:
  "messages pendingTurn =
     [\<lparr>role = User, content = ''hi'', senderName = None, timestamp = 1100\<rparr>]
     @ [\<lparr>role = Model, content = ''It is a pen'', senderName = None, timestamp = 1200\<rparr>]"
  by (simp add: pendingTurn_def)

text \<open>
  C2. When the timeline ends in a model message and the buffered user transcript is
  not empty, a turn-complete event puts the user message, with the buffered text
  and the current time, immediately before that model message: the timeline
  \<open>prior @ [m]\<close> becomes \<open>prior @ [userMessage, m]\<close>. The handler does not throw,
  and both buffers are empty afterwards. The same holds of the turn-complete branch
  for any server content with the turn-complete flag.
\<close>

theorem turnComplete_puts_user_before_model:
  assumes "messages s = prior @ [m]" and "role m = Model"
    and "user (transcriptionBufferRef s) \<noteq> []"
  shows "fst (onmessage r e turnCompleteEvent s) = None
         \<and> messages (snd (onmessage r e turnCompleteEvent s)) =
             prior @ [\<lparr>role = User, content = user (transcriptionBufferRef s),
                       senderName = None, timestamp = dateNow e\<rparr>, m]
         \<and> transcriptionBufferRef (snd (onmessage r e turnCompleteEvent s)) =
             \<lparr>user = [], model = []\<rparr>
         \<and> (turnComplete sc \<longrightarrow>
              messages (turnCompleteBranch r e sc s) =
                prior @ [\<lparr>role = User, content = user (transcriptionBufferRef s),
                          senderName = None, timestamp = dateNow e\<rparr>, m])"
proof -
  have tc: "turnComplete (noContent\<lparr>turnComplete := True\<rparr>)" by simp
  from assms show ?thesis
    by (simp add: onmessage_turnCompleteEvent turnCompleteBranch_messages[OF tc]
        turnCompleteBranch_buffer[OF tc] turnCompleteBranch_messages flushUserText_model)
qed

theorem turnComplete_puts_user_before_model_witness:
  "messages pendingTurn =
     [\<lparr>role = User, content = ''hi'', senderName = None, timestamp = 1100\<rparr>]
     @ [\<lparr>role = Model, content = ''It is a pen'', senderName = None, timestamp = 1200\<rparr>]
   \<and> user (transcriptionBufferRef pendingTurn) \<noteq> []
   \<and> messages (snd (onmessage pendingTurn sampleEnv turnCompleteEvent pendingTurn)) =
       [\<lparr>role = User, content = ''hi'', senderName = None, timestamp = 1100\<rparr>,
        \<lparr>role = User, content = ''what is this'', senderName = None, timestamp = 2000\<rparr>,
        \<lparr>role = Model, content = ''It is a pen'', senderName = None, timestamp = 1200\<rparr>]"
proof -
  have b: "role \<lparr>role = Model, content = ''It is a pen'', senderName = None,
                 timestamp = 1200\<rparr> = Model"
    by simp
  have c: "user (transcriptionBufferRef pendingTurn) \<noteq> []"
    by (simp add: pendingTurn_def)
  have d: "user (transcriptionBufferRef pendingTurn) = ''what is this''"
    by (simp add: pendingTurn_def)
  have e: "dateNow sampleEnv = 2000" by (simp add: sampleEnv_def)
  note t = turnComplete_puts_user_before_model[OF pendingTurn_messages b c, of pendingTurn sampleEnv]
  from t have "messages (snd (onmessage pendingTurn sampleEnv turnCompleteEvent pendingTurn)) =
       [\<lparr>role = User, content = ''hi'', senderName = None, timestamp = 1100\<rparr>,
        \<lparr>role = User, content = ''what is this'', senderName = None, timestamp = 2000\<rparr>,
        \<lparr>role = Model, content = ''It is a pen'', senderName = None, timestamp = 1200\<rparr>]"
    by (simp add: d e)
  with pendingTurn_messages c show ?thesis by blast
qed

text \<open>
  C10. When the buffered user transcript is empty, a turn-complete event changes
  nothing but the transcription buffers, which it clears: the state afterwards is
  the state before with both buffers empty, so the timeline is the same, no user
  message is added and the trailing model message stays where it is.
\<close>

theorem turnComplete_with_empty_transcript:
  assumes "user (transcriptionBufferRef s) = []"
  shows "onmessage r e turnCompleteEvent s =
           (None, s\<lparr>transcriptionBufferRef := \<lparr>user = [], model = []\<rparr>\<rparr>)
         \<and> messages (snd (onmessage r e turnCompleteEvent s)) = messages s
         \<and> (turnComplete sc \<longrightarrow>
              turnCompleteBranch r e sc s =
                s\<lparr>transcriptionBufferRef := \<lparr>user = [], model = []\<rparr>\<rparr>)"
  using assms
  by (simp add: onmessage_turnCompleteEvent turnCompleteBranch_def turnCompleteCall_def Let_def
      liveTrigger_def toLowerCase_def)

theorem turnComplete_with_empty_transcript_witness:
  "user (transcriptionBufferRef silentTurn) = []
   \<and> model (transcriptionBufferRef silentTurn) = ''It is a pen''
   \<and> onmessage silentTurn sampleEnv turnCompleteEvent silentTurn =
       (None, silentTurn\<lparr>transcriptionBufferRef := \<lparr>user = [], model = []\<rparr>\<rparr>)
   \<and> messages (snd (onmessage silentTurn sampleEnv turnCompleteEvent silentTurn)) =
       [\<lparr>role = User, content = ''hi'', senderName = None, timestamp = 1100\<rparr>,
        \<lparr>role = Model, content = ''It is a pen'', senderName = None, timestamp = 1200\<rparr>]"
proof -
  have a: "user (transcriptionBufferRef silentTurn) = []"
    and b: "model (transcriptionBufferRef silentTurn) = ''It is a pen''"
    and c: "messages silentTurn =
       [\<lparr>role = User, content = ''hi'', senderName = None, timestamp = 1100\<rparr>,
        \<lparr>role = Model, content = ''It is a pen'', senderName = None, timestamp = 1200\<rparr>]"
    by (simp_all add: silentTurn_def pendingTurn_def)
  note t = turnComplete_with_empty_transcript[OF a, of silentTurn sampleEnv]
  from t have "messages (snd (onmessage silentTurn sampleEnv turnCompleteEvent silentTurn)) =
       [\<lparr>role = User, content = ''hi'', senderName = None, timestamp = 1100\<rparr>,
        \<lparr>role = Model, content = ''It is a pen'', senderName = None, timestamp = 1200\<rparr>]"
    using c by simp
  with t a b show ?thesis by blast
qed





text \<open>
  The same timeline results when React runs the updaters of the two calls only
  after the second call.
\<close>

lemma deltas_batched:
  assumes "model (transcriptionBufferRef s) = []"
    and "messages s = [] \<or> role (last (messages s)) \<noteq> Model"
    and "onmessageCall r e1 (outputTranscriptionEvent ''Hi'') s = (x1, s1, us1)"
    and "onmessageCall r e2 (outputTranscriptionEvent '' there'') s1 = (x2, s2, us2)"
  shows "messages (runUpdaters e3 (us1 @ us2) s2) =
           messages s @ [\<lparr>role = Model, content = ''Hi there'', senderName = None,
                          timestamp = dateNow e3\<rparr>]"
  using assms
  by (auto simp: onmessageCall_def outputTranscriptionEvent_def base64Audio_def noContent_def
      audioChunk_def inputTranscriptionBranch_def interruptedBranch_def turnCompleteCall_def
      outputTranscriptionCall_def runUpdater_def mergeModelText_def)


section \<open>Properties of the playback schedule\<close>

lemma noOverlap_snoc:
  "noOverlap (xs @ [x]) =
     (noOverlap xs \<and> (xs = [] \<or> startAt (last xs) + duration (last xs) \<le> startAt x))"
  by (cases xs rule: rev_cases) (auto simp: noOverlap_def successively_append_iff)

lemma noOverlap_short [simp]: "noOverlap []" "noOverlap [x]"
  by (simp_all add: noOverlap_def)

lemma audioChunk_cursorCovers:
  "cursorCovers k s \<Longrightarrow> cursorCovers k (snd (audioChunk e a s))"
  by (cases "k < length (audioSourcesRef s)")
     (auto simp: cursorCovers_def audioChunk_def Let_def noOverlap_snoc last_drop
      split: option.splits)

lemma deliverAll_audio_cursorCovers:
  "cursorCovers k s \<Longrightarrow> cursorCovers k (deliverAll r (audioChunkEvents chunks) s)"
proof (induction chunks arbitrary: s)
  case Nil
  then show ?case by (simp add: audioChunkEvents_def)
next
  case (Cons c chunks)
  obtain e b64 where c: "c = (e, b64)" by (cases c)
  have "cursorCovers k (snd (audioChunk e (Some b64) s))"
    using Cons.prems by (rule audioChunk_cursorCovers)
  then have "cursorCovers k
      (deliverAll r (audioChunkEvents chunks) (snd (audioChunk e (Some b64) s)))"
    by (rule Cons.IH)
  then show ?case
    using Cons.IH by (simp add: c audioChunkEvents_def onmessage_audioChunkEvent)
qed

lemma scheduledBy_noOverlap: "noOverlap (scheduledBy r (audioChunkEvents chunks) s)"
proof -
  have "cursorCovers (length (audioSourcesRef s)) s"
    by (simp add: cursorCovers_def noOverlap_def)
  then have "cursorCovers (length (audioSourcesRef s)) (deliverAll r (audioChunkEvents chunks) s)"
    by (rule deliverAll_audio_cursorCovers)
  then show ?thesis by (simp add: cursorCovers_def scheduledBy_def)
qed

lemma noOverlap_sorted:
  "noOverlap xs \<Longrightarrow> \<forall>x \<in> set xs. 0 \<le> duration x \<Longrightarrow> sorted (map startAt xs)"
proof (induction xs rule: induct_list012)
  case 1
  then show ?case by simp
next
  case (2 x)
  then show ?case by simp
next
  case (3 x y zs)
  then have s: "sorted (map startAt (y # zs))" and le: "startAt x \<le> startAt y"
    by (auto simp: noOverlap_def)
  from s le show ?case by (auto intro: order_trans)
qed

lemma playingState_sources:
  "audioSourcesRef playingState =
     [\<lparr>startAt = 0, duration = 4\<rparr>, \<lparr>startAt = 4, duration = 2\<rparr>]
   \<and> nextStartTimeRef playingState = 6 \<and> stopped playingState = []"
  by (simp add: playingState_def audioChunkEvents_def onmessage_audioChunkEvent audioChunk_def
      Let_def freshLive_def startLiveSession_def initialState_def sampleEnv_def)

text \<open>
  C4. An audio chunk that is played (a payload that is not empty, an output
  context, a decoder that succeeds) is started at the maximum of
  \<open>nextStartTimeRef\<close> and the output clock, and \<open>nextStartTimeRef\<close> becomes that
  start plus the duration of the chunk. For every sequence of audio chunk events
  and every state they are delivered to, the sources they schedule, in order, do
  not overlap: each starts no earlier than the start of the one before plus its
  duration. Durations of buffers not being negative, the start times are
  non-decreasing.
\<close>

theorem audio_chunks_do_not_overlap:
  "(payload \<noteq> [] \<and> audioContextOutRef s \<and> decodeAudioData e payload = Some d \<longrightarrow>
      onmessage r e (audioChunkEvent payload) s =
        (None,
         s\<lparr>nextStartTimeRef := max (nextStartTimeRef s) (ctxCurrentTime e) + d,
           audioSourcesRef := audioSourcesRef s @
             [\<lparr>startAt = max (nextStartTimeRef s) (ctxCurrentTime e), duration = d\<rparr>]\<rparr>))
   \<and> noOverlap (scheduledBy r (audioChunkEvents chunks) s)
   \<and> ((\<forall>src \<in> set (scheduledBy r (audioChunkEvents chunks) s). 0 \<le> duration src) \<longrightarrow>
        sorted (map startAt (scheduledBy r (audioChunkEvents chunks) s)))"
proof -
  have step: "payload \<noteq> [] \<and> audioContextOutRef s \<and> decodeAudioData e payload = Some d \<longrightarrow>
      onmessage r e (audioChunkEvent payload) s =
        (None,
         s\<lparr>nextStartTimeRef := max (nextStartTimeRef s) (ctxCurrentTime e) + d,
           audioSourcesRef := audioSourcesRef s @
             [\<lparr>startAt = max (nextStartTimeRef s) (ctxCurrentTime e), duration = d\<rparr>]\<rparr>)"
    by (simp add: onmessage_audioChunkEvent audioChunk_def Let_def)
  from step scheduledBy_noOverlap noOverlap_sorted show ?thesis by blast
qed

theorem audio_chunks_do_not_overlap_witness:
  "audioContextOutRef playingState
   \<and> decodeAudioData sampleEnv ''AAAA'' = Some 4
   \<and> onmessage playingState sampleEnv (audioChunkEvent ''AAAA'') playingState =
       (None, playingState\<lparr>nextStartTimeRef := 10,
                audioSourcesRef := [\<lparr>startAt = 0, duration = 4\<rparr>, \<lparr>startAt = 4, duration = 2\<rparr>,
                                    \<lparr>startAt = 6, duration = 4\<rparr>]\<rparr>)
   \<and> scheduledBy playingState (audioChunkEvents threeChunks) playingState =
       [\<lparr>startAt = 6, duration = 4\<rparr>, \<lparr>startAt = 10, duration = 2\<rparr>,
        \<lparr>startAt = 20, duration = 3\<rparr>]
   \<and> noOverlap (scheduledBy playingState (audioChunkEvents threeChunks) playingState)
   \<and> sorted (map startAt (scheduledBy playingState (audioChunkEvents threeChunks) playingState))"
proof -
  have b: "audioContextOutRef playingState"
    by (simp add: playingState_def audioChunkEvents_def onmessage_audioChunkEvent audioChunk_def
      Let_def freshLive_def startLiveSession_def initialState_def sampleEnv_def)
  have c: "decodeAudioData sampleEnv ''AAAA'' = Some 4" and k: "ctxCurrentTime sampleEnv = 0"
    by (simp_all add: sampleEnv_def)
  have d: "scheduledBy playingState (audioChunkEvents threeChunks) playingState =
       [\<lparr>startAt = 6, duration = 4\<rparr>, \<lparr>startAt = 10, duration = 2\<rparr>,
        \<lparr>startAt = 20, duration = 3\<rparr>]"
    by (simp add: scheduledBy_def threeChunks_def audioChunkEvents_def onmessage_audioChunkEvent
        audioChunk_def Let_def b playingState_sources sampleEnv_def)
  have p: "\<forall>src \<in> set (scheduledBy playingState (audioChunkEvents threeChunks) playingState).
             0 \<le> duration src"
    unfolding d by simp
  note t = audio_chunks_do_not_overlap
      [where payload = "''AAAA''" and s = playingState and e = sampleEnv and d = 4
         and r = playingState and chunks = threeChunks]
  from t b c
  have "onmessage playingState sampleEnv (audioChunkEvent ''AAAA'') playingState =
        (None,
         playingState\<lparr>nextStartTimeRef :=
             max (nextStartTimeRef playingState) (ctxCurrentTime sampleEnv) + 4,
           audioSourcesRef := audioSourcesRef playingState @
             [\<lparr>startAt = max (nextStartTimeRef playingState) (ctxCurrentTime sampleEnv),
               duration = 4\<rparr>]\<rparr>)"
    by blast
  then have s: "onmessage playingState sampleEnv (audioChunkEvent ''AAAA'') playingState =
       (None, playingState\<lparr>nextStartTimeRef := 10,
                audioSourcesRef := [\<lparr>startAt = 0, duration = 4\<rparr>, \<lparr>startAt = 4, duration = 2\<rparr>,
                                    \<lparr>startAt = 6, duration = 4\<rparr>]\<rparr>)"
    by (simp add: playingState_sources k)
  from t p
  have "noOverlap (scheduledBy playingState (audioChunkEvents threeChunks) playingState)
     \<and> sorted (map startAt (scheduledBy playingState (audioChunkEvents threeChunks) playingState))"
    by blast
  with b c s d show ?thesis by blast
qed

section \<open>Properties of the interruption\<close>

lemma audioChunk_sources:
  "audioChunk e a s = (x, s1) \<Longrightarrow> set (audioSourcesRef s) \<subseteq> set (audioSourcesRef s1)"
  by (auto simp: audioChunk_def Let_def split: option.splits if_splits)

lemma outputTranscriptionCall_sources:
  "audioSourcesRef (fst (outputTranscriptionCall sc (inputTranscriptionBranch sc s))) =
     audioSourcesRef s"
  by (simp add: outputTranscriptionCall_def inputTranscriptionBranch_def split: option.splits)

lemma onmessage_interrupted:
  assumes "serverContent m = Some sc" and "interrupted sc" and "fst (onmessage r e m s) = None"
  shows "audioSourcesRef (snd (onmessage r e m s)) = []
         \<and> nextStartTimeRef (snd (onmessage r e m s)) = 0
         \<and> set (audioSourcesRef s) \<subseteq> set (stopped (snd (onmessage r e m s)))"
proof (cases "base64Audio m")
  case (Inl err)
  with assms show ?thesis by (simp add: onmessage_def onmessageCall_def)
next
  case (Inr a)
  obtain x s1 where ac: "audioChunk e a s = (x, s1)" by (cases "audioChunk e a s")
  with assms Inr have x: "x = None" by (cases x) (simp_all add: onmessage_def onmessageCall_def)
  let ?s2 = "fst (outputTranscriptionCall sc (inputTranscriptionBranch sc s1))"
  let ?us = "snd (outputTranscriptionCall sc (inputTranscriptionBranch sc s1))
             @ snd (turnCompleteCall r sc ?s2)"
  let ?mid = "fst (turnCompleteCall r sc ?s2)"
  have res: "snd (onmessage r e m s) = runUpdaters e ?us (interruptedBranch sc ?mid)"
    using assms Inr ac x by (simp add: onmessage_def onmessageCall_def split: prod.split)
  have "set (audioSourcesRef s) \<subseteq> set (audioSourcesRef ?mid)"
    using audioChunk_sources[OF ac]
    by (simp add: turnCompleteCall_state outputTranscriptionCall_sources)
  with assms(2) show ?thesis
    unfolding res by (auto simp: interruptedBranch_def runUpdaters_frame)
qed

text \<open>
  C5. Whatever the state, and however many sources are tracked, an interrupted
  event stops every tracked source, leaves the tracked set empty and sets
  \<open>nextStartTimeRef\<close> to zero; nothing else changes. The same three facts hold for
  any message with the interrupted flag whose handling does not throw, whatever
  else the message carries.
\<close>

theorem interrupted_stops_and_clears_playback:
  "onmessage r e interruptedEvent s =
     (None, s\<lparr>stopped := stopped s @ audioSourcesRef s, audioSourcesRef := [],
              nextStartTimeRef := 0\<rparr>)
   \<and> (serverContent m = Some sc \<and> interrupted sc \<and> fst (onmessage r e m s) = None \<longrightarrow>
        audioSourcesRef (snd (onmessage r e m s)) = []
        \<and> nextStartTimeRef (snd (onmessage r e m s)) = 0
        \<and> set (audioSourcesRef s) \<subseteq> set (stopped (snd (onmessage r e m s))))"
proof -
  have "onmessage r e interruptedEvent s =
     (None, s\<lparr>stopped := stopped s @ audioSourcesRef s, audioSourcesRef := [],
              nextStartTimeRef := 0\<rparr>)"
    by (simp add: onmessage_def onmessageCall_def interruptedEvent_def base64Audio_def
      noContent_def audioChunk_def
      inputTranscriptionBranch_def outputTranscriptionCall_def interruptedBranch_def
      turnCompleteCall_def)
  with onmessage_interrupted[of m sc r e s] show ?thesis by blast
qed

theorem interrupted_stops_and_clears_playback_witness:
  "audioSourcesRef playingState =
     [\<lparr>startAt = 0, duration = 4\<rparr>, \<lparr>startAt = 4, duration = 2\<rparr>]
   \<and> nextStartTimeRef playingState = 6
   \<and> serverContent interruptedEvent = Some (noContent\<lparr>interrupted := True\<rparr>)
   \<and> interrupted (noContent\<lparr>interrupted := True\<rparr>)
   \<and> fst (onmessage playingState sampleEnv interruptedEvent playingState) = None
   \<and> audioSourcesRef (snd (onmessage playingState sampleEnv interruptedEvent playingState)) = []
   \<and> nextStartTimeRef (snd (onmessage playingState sampleEnv interruptedEvent playingState)) = 0
   \<and> stopped (snd (onmessage playingState sampleEnv interruptedEvent playingState)) =
       [\<lparr>startAt = 0, duration = 4\<rparr>, \<lparr>startAt = 4, duration = 2\<rparr>]"
proof -
  note t = interrupted_stops_and_clears_playback
      [of playingState sampleEnv playingState interruptedEvent "noContent\<lparr>interrupted := True\<rparr>"]
  have a: "serverContent interruptedEvent = Some (noContent\<lparr>interrupted := True\<rparr>)"
    by (simp add: interruptedEvent_def)
  have b: "interrupted (noContent\<lparr>interrupted := True\<rparr>)" by simp
  from t have eq: "onmessage playingState sampleEnv interruptedEvent playingState =
     (None, playingState\<lparr>stopped := stopped playingState @ audioSourcesRef playingState,
              audioSourcesRef := [], nextStartTimeRef := 0\<rparr>)"
    by blast
  have c: "fst (onmessage playingState sampleEnv interruptedEvent playingState) = None"
    and d: "stopped (snd (onmessage playingState sampleEnv interruptedEvent playingState)) =
       [\<lparr>startAt = 0, duration = 4\<rparr>, \<lparr>startAt = 4, duration = 2\<rparr>]"
    unfolding eq by (simp_all add: playingState_sources)
  from t a b c
  have "audioSourcesRef (snd (onmessage playingState sampleEnv interruptedEvent playingState)) = []
      \<and> nextStartTimeRef (snd (onmessage playingState sampleEnv interruptedEvent playingState)) = 0"
    by blast
  with playingState_sources a b c d show ?thesis by blast
qed

end
